theory Spec2Isabelle
  imports Complex_Main
begin

section \<open>scdetect: validators, waveform trimming and the linker\<close>

text \<open>
  A shallow embedding of \<^verbatim>\<open>validators.cpp\<close>, of \<^verbatim>\<open>waveform::Trim\<close> and of
  \<^verbatim>\<open>detector/linker.cpp\<close>.

  Conventions of the embedding.
  \<^item> C++ \<^verbatim>\<open>double\<close> values (thresholds, correlation coefficients, lags) and the
    SeisComP time types \<^verbatim>\<open>Core::Time\<close> and \<^verbatim>\<open>Core::TimeSpan\<close> (seconds) are real
    numbers; NaN and the infinities are not modelled. The validators and the linker
    compare, add, subtract and average such values; the rounding there is not modelled. In
    \<^verbatim>\<open>Trim\<close> the results of floating-point operations are truncated to integers, so
    there every floating-point operation is a parameter and nothing is assumed about how
    it rounds.
  \<^item> \<^verbatim>\<open>int\<close> is a 32 bit signed integer. A conversion or an addition that leaves its
    range has no defined result in C++; the model returns \<open>None\<close> there.
  \<^item> A \<^verbatim>\<open>std::unordered_map\<close> with string keys is an association list with its
    entries in insertion order; the iteration order of the C++ container is unspecified and
    nothing below depends on it beyond the order of a result's entries.
\<close>

subsection \<open>validators.cpp\<close>

definition ValidateXCorrThreshold :: "real \<Rightarrow> bool" where
  "ValidateXCorrThreshold thres = (- 1 \<le> thres \<and> 1 \<ge> thres)"

definition ValidateArrivalOffsetThreshold :: "real \<Rightarrow> bool" where
  "ValidateArrivalOffsetThreshold thres = (thres < 0 \<or> thres \<ge> 2 / 10 ^ 6)"

subsection \<open>waveform.cpp: Trim\<close>

text \<open>
  The floating-point steps of \<^verbatim>\<open>Trim\<close>: the conversion of a \<^verbatim>\<open>Core::TimeSpan\<close> to
  \<^verbatim>\<open>double\<close> and back, and the product and the quotient of two \<^verbatim>\<open>double\<close>s. Each of
  them rounds; how is left open. They are the fields of a record that the model of
  \<^verbatim>\<open>Trim\<close> takes as a parameter, and a statement about \<^verbatim>\<open>Trim\<close> for every such record
  holds in particular for the arithmetic of the machine. Times and their differences are
  exact (SeisComP keeps them as integers of microseconds).
\<close>

record Doubles =
  span_to_double :: "real \<Rightarrow> real"
  double_to_span :: "real \<Rightarrow> real"
  dmul :: "real \<Rightarrow> real \<Rightarrow> real"
  ddiv :: "real \<Rightarrow> real \<Rightarrow> real"

text \<open>
  \<^verbatim>\<open>Core::TimeWindow\<close>: a start and an end time; \<^verbatim>\<open>length()\<close> is their difference
  in seconds, as a \<^verbatim>\<open>double\<close>.
\<close>

record TimeWindow =
  startTime :: real
  endTime :: real

definition length_tw :: "Doubles \<Rightarrow> TimeWindow \<Rightarrow> real" where
  "length_tw fp tw = span_to_double fp (endTime tw - startTime tw)"

text \<open>
  \<^verbatim>\<open>GenericRecord\<close>, reduced to what \<^verbatim>\<open>Trim\<close> reads and writes: the start time,
  the sampling frequency and the samples.
\<close>

record GenericRecord =
  recStartTime :: real
  samplingFrequency :: real
  data :: "real list"

text \<open>
  \<^verbatim>\<open>static_cast<int>(double)\<close> discards the fractional part (rounds toward zero); the
  result is undefined when the truncated value is not representable.
\<close>

definition static_cast_int :: "real \<Rightarrow> int option" where
  "static_cast_int x =
     (let t = (if 0 \<le> x then \<lfloor>x\<rfloor> else \<lceil>x\<rceil>)
      in if - (2 ^ 31) \<le> t \<and> t < 2 ^ 31 then Some t else None)"

text \<open>Signed addition of two \<^verbatim>\<open>int\<close>s; overflow is undefined.\<close>

definition add_int :: "int \<Rightarrow> int \<Rightarrow> int option" where
  "add_int a b = (if - (2 ^ 31) \<le> a + b \<and> a + b < 2 ^ 31 then Some (a + b) else None)"

text \<open>
  \<^verbatim>\<open>Array::slice(m, n)\<close>: the samples with index in \<open>[m, n)\<close>. \<^verbatim>\<open>Trim\<close> calls it with
  \<open>0 \<le> m\<close> and \<open>n \<le> size\<close> only; an empty or reversed range is the empty sample list here.
\<close>

definition slice :: "real list \<Rightarrow> int \<Rightarrow> int \<Rightarrow> real list" where
  "slice xs m n = take (nat (n - m)) (drop (nat m) xs)"

text \<open>
  The locals \<^verbatim>\<open>offset\<close> and \<^verbatim>\<open>samples\<close> of \<^verbatim>\<open>Trim\<close>: the \<^verbatim>\<open>double\<close> product of
  the start difference (of the window length) and the sampling frequency, truncated.
\<close>

definition trim_offset :: "Doubles \<Rightarrow> GenericRecord \<Rightarrow> TimeWindow \<Rightarrow> int option" where
  "trim_offset fp trace tw =
     static_cast_int
       (dmul fp (span_to_double fp (startTime tw - recStartTime trace)) (samplingFrequency trace))"

definition trim_samples :: "Doubles \<Rightarrow> GenericRecord \<Rightarrow> TimeWindow \<Rightarrow> int option" where
  "trim_samples fp trace tw =
     static_cast_int (dmul fp (length_tw fp tw) (samplingFrequency trace))"

text \<open>
  \<^verbatim>\<open>Trim\<close> returns the flag together with the trace as the call leaves it; \<open>None\<close> is
  undefined behaviour of the integer arithmetic. The two log calls have no effect on the
  trace and are left out. The new start time is the old one plus the time span made from
  the \<^verbatim>\<open>double\<close> quotient of the offset and the sampling frequency.
\<close>

definition Trim ::
  "Doubles \<Rightarrow> GenericRecord \<Rightarrow> TimeWindow \<Rightarrow> (bool \<times> GenericRecord) option" where
  "Trim fp trace tw =
     (case trim_offset fp trace tw of
        None \<Rightarrow> None
      | Some offset \<Rightarrow>
          (case trim_samples fp trace tw of
             None \<Rightarrow> None
           | Some samples \<Rightarrow>
               if offset < 0 then Some (False, trace)
               else
                 (case add_int offset samples of
                    None \<Rightarrow> None
                  | Some e \<Rightarrow>
                      if e > int (length (data trace)) then Some (False, trace)
                      else
                        Some (True,
                          trace\<lparr>recStartTime :=
                                  recStartTime trace +
                                  double_to_span fp
                                    (ddiv fp (real_of_int offset) (samplingFrequency trace)),
                                data := slice (data trace) offset e\<rparr>))))"

subsection \<open>linker.cpp: data\<close>

text \<open>
  The header \<^verbatim>\<open>linker.h\<close> and the types it includes are not part of the sources at
  hand. The records below carry the members that \<^verbatim>\<open>linker.cpp\<close> reads and writes, under
  the names it uses for them (the arrival of a registered processor is \<open>procArrival\<close>, the
  reference table of the linker is \<open>linkerPot\<close>). What \<^verbatim>\<open>linker.cpp\<close> shows of the
  member types is kept:
  \<^item> \<^verbatim>\<open>_processors\<close> and the \<^verbatim>\<open>results\<close> of an event are maps with one entry per key
    (\<^verbatim>\<open>find\<close>, \<^verbatim>\<open>at\<close>, \<^verbatim>\<open>emplace\<close>, \<^verbatim>\<open>erase\<close> by key);
  \<^item> \<^verbatim>\<open>_queue\<close> is a sequence whose iterators stay valid when other elements are
    erased, so the erasures at the end of \<^verbatim>\<open>process\<close> remove exactly the collected events;
  \<^item> \<^verbatim>\<open>refPickTime\<close> of an event is unset (\<open>None\<close>) until the first merge;
  \<^item> the status has the two values the file names, \<^verbatim>\<open>kWaitingForData\<close> before
    \<^verbatim>\<open>kTerminated\<close>.
\<close>

record Pick =
  time :: real
  waveformStreamId :: string

record Arrival =
  pick :: Pick
  phase :: string

record MatchResult =
  coefficient :: real
  lag :: real
  timeWindow :: TimeWindow

text \<open>
  \<^verbatim>\<open>TemplateWaveformProcessor\<close>, as far as the linker calls it: \<^verbatim>\<open>id()\<close> and
  \<^verbatim>\<open>templateStartTime()\<close>. The linker keeps a pointer to a registered processor; the
  model keeps the value the pointer designates.
\<close>

record TemplateWaveformProcessor =
  proc_id :: string
  templateStartTime :: "real option"

record Processor =
  proc :: TemplateWaveformProcessor
  procArrival :: Arrival

record TemplateResult =
  arrival :: Arrival
  matchResult :: MatchResult

text \<open>
  Modelled from the spec: the pick offset table (\<^verbatim>\<open>POT\<close>, declared in
  \<^verbatim>\<open>detector/pot.h\<close>, which is missing). The spec describes it as built from an ordered
  vector of arrivals (its entries are the absolute differences of their pick times), with
  an enable flag per arrival that defaults to true;
  \<^verbatim>\<open>enable()\<close> enables every row and column and \<^verbatim>\<open>disable(streamIds)\<close> masks the rows
  and columns of the given streams.
\<close>

type_synonym POT = "(Arrival \<times> bool) list"

definition POT_of :: "Arrival list \<Rightarrow> POT" where
  "POT_of arrivals = map (\<lambda>a. (a, True)) arrivals"

definition pot_enable :: "POT \<Rightarrow> POT" where
  "pot_enable p = map (\<lambda>e. (fst e, True)) p"

definition pot_disable :: "string set \<Rightarrow> POT \<Rightarrow> POT" where
  "pot_disable wfIds p =
     map (\<lambda>e. (fst e, if waveformStreamId (pick (fst e)) \<in> wfIds then False else snd e)) p"

text \<open>The streams whose rows and columns are masked in a table.\<close>

definition pot_disabled :: "POT \<Rightarrow> string set" where
  "pot_disabled p = set (map (\<lambda>e. waveformStreamId (pick (fst e))) (filter (\<lambda>e. \<not> snd e) p))"

text \<open>
  \<^verbatim>\<open>validatePickOffsets(reference, candidate, exceeded, threshold)\<close> is declared in the
  missing \<^verbatim>\<open>pot.h\<close> as well. The linker only reads its Boolean result and the set
  \<^verbatim>\<open>exceeded\<close> it fills, so the functions below take it as a parameter of this type.
\<close>

type_synonym validator = "POT \<Rightarrow> POT \<Rightarrow> real \<Rightarrow> bool \<times> string set"

text \<open>
  Modelled from the spec: \<^verbatim>\<open>utils::cma\<close>, which the \<^verbatim>\<open>utils.h\<close> at hand does not
  declare. The spec gives the fit of an event as the mean of the participating
  coefficients, and the comment at the call in \<^verbatim>\<open>mergeResult\<close> says the same.
\<close>

definition cma :: "real list \<Rightarrow> real" where
  "cma samples = sum_list samples / real (length samples)"

record Result =
  fit :: real
  results :: "(string \<times> TemplateResult) list"
  refProcId :: string
  pot :: POT

record Event =
  expired :: real
  result :: Result
  refPickTime :: "real option"

datatype Status = kWaitingForData | kTerminated

fun status_rank :: "Status \<Rightarrow> nat" where
  "status_rank kWaitingForData = 0"
| "status_rank kTerminated = 1"

text \<open>
  The linker. \<open>resultCallback\<close> records whether a callback is registered; what the callback
  does with a result is outside the linker, so every function that may call
  \<^verbatim>\<open>emitResult\<close> returns, next to the new state, the results handed to the callback, in
  order.
\<close>

record Linker =
  thresArrivalOffset :: "real option"
  thresResult :: "real option"
  minArrivals :: "nat option"
  onHold :: real
  status :: Status
  processors :: "(string \<times> Processor) list"
  queue :: "Event list"
  linkerPot :: POT
  potValid :: bool
  resultCallback :: bool

text \<open>
  \<^verbatim>\<open>std::unordered_map::emplace\<close>: the entry is inserted only if the container holds no
  entry with that key; an existing entry stays as it is.
\<close>

definition emplace :: "'k \<Rightarrow> 'v \<Rightarrow> ('k \<times> 'v) list \<Rightarrow> ('k \<times> 'v) list" where
  "emplace k v m = (case map_of m k of None \<Rightarrow> m @ [(k, v)] | Some _ \<Rightarrow> m)"

subsection \<open>linker.cpp: configuration and registration\<close>

text \<open>
  The constructor sets the on-hold span and the arrival offset threshold. The default
  member initialisers are in the missing header; the model starts with no result threshold,
  no minimum number of arrivals, no processor, no event, no callback, an invalid reference
  table and the status \<^verbatim>\<open>kWaitingForData\<close>.
\<close>

definition Linker_init :: "real \<Rightarrow> real \<Rightarrow> Linker" where
  "Linker_init hold arrivalOffsetThres =
     \<lparr>thresArrivalOffset = Some arrivalOffsetThres, thresResult = None, minArrivals = None,
      onHold = hold, status = kWaitingForData, processors = [], queue = [], linkerPot = [],
      potValid = False, resultCallback = False\<rparr>"

definition setThresArrivalOffset :: "real option \<Rightarrow> Linker \<Rightarrow> Linker" where
  "setThresArrivalOffset thres l = l\<lparr>thresArrivalOffset := thres\<rparr>"

definition setThresResult :: "real option \<Rightarrow> Linker \<Rightarrow> Linker" where
  "setThresResult thres l = l\<lparr>thresResult := thres\<rparr>"

definition setOnHold :: "real \<Rightarrow> Linker \<Rightarrow> Linker" where
  "setOnHold duration l = l\<lparr>onHold := duration\<rparr>"

text \<open>\<^verbatim>\<open>setResultCallback\<close> registers a callback.\<close>

definition setResultCallback :: "Linker \<Rightarrow> Linker" where
  "setResultCallback l = l\<lparr>resultCallback := True\<rparr>"

definition setMinArrivals :: "nat option \<Rightarrow> Linker \<Rightarrow> Linker" where
  "setMinArrivals n l =
     l\<lparr>minArrivals := (case n of None \<Rightarrow> None | Some v \<Rightarrow> if 1 > v then None else Some v)\<rparr>"

definition getAssociatedChannelCount :: "Linker \<Rightarrow> nat" where
  "getAssociatedChannelCount l =
     length (remdups (map (\<lambda>procPair. waveformStreamId (pick (procArrival (snd procPair))))
                          (processors l)))"

definition getProcessorCount :: "Linker \<Rightarrow> nat" where
  "getProcessorCount l = length (processors l)"

text \<open>The processor pointer handed to \<^verbatim>\<open>add\<close> may be null: \<open>None\<close>.\<close>

definition add :: "TemplateWaveformProcessor option \<Rightarrow> Arrival \<Rightarrow> Linker \<Rightarrow> Linker" where
  "add p a l =
     (case p of
        None \<Rightarrow> l
      | Some tp \<Rightarrow>
          l\<lparr>processors := emplace (proc_id tp) \<lparr>proc = tp, procArrival = a\<rparr> (processors l),
            potValid := False\<rparr>)"

definition remove :: "string \<Rightarrow> Linker \<Rightarrow> Linker" where
  "remove procId l =
     l\<lparr>processors := filter (\<lambda>procPair. fst procPair \<noteq> procId) (processors l),
       potValid := False\<rparr>"

definition reset :: "Linker \<Rightarrow> Linker" where
  "reset l = l\<lparr>queue := [], potValid := False, status := kWaitingForData\<rparr>"

definition createPot :: "Linker \<Rightarrow> Linker" where
  "createPot l =
     l\<lparr>linkerPot := POT_of (map (\<lambda>p. procArrival (snd p)) (processors l)), potValid := True\<rparr>"

definition emitResult :: "Linker \<Rightarrow> Result \<Rightarrow> Result list" where
  "emitResult l res = (if resultCallback l then [res] else [])"

subsection \<open>linker.cpp: events\<close>

definition getArrivalCount :: "Event \<Rightarrow> nat" where
  "getArrivalCount ev = length (results (result ev))"

text \<open>
  \<^verbatim>\<open>Event event{now + _onHold}\<close>: only the deadline is given. \<^verbatim>\<open>mergeResult\<close> on such an
  event overwrites every member of its result, so the defaults of the result do not show.
\<close>

definition Event_init :: "real \<Rightarrow> Event" where
  "Event_init deadline =
     \<lparr>expired = deadline,
      result = \<lparr>fit = 0, results = [], refProcId = [], pot = []\<rparr>,
      refPickTime = None\<rparr>"

definition mergeResult :: "string \<Rightarrow> TemplateResult \<Rightarrow> POT \<Rightarrow> Event \<Rightarrow> Event" where
  "mergeResult procId res p ev =
     (let templResults = emplace procId res (results (result ev));
          fits = map (\<lambda>pr. coefficient (matchResult (snd pr))) templResults;
          r = (result ev)\<lparr>results := templResults, fit := cma fits, pot := p\<rparr>
      in case refPickTime ev of
           None \<Rightarrow>
             ev\<lparr>result := r\<lparr>refProcId := procId\<rparr>,
                refPickTime := Some (time (pick (arrival res)))\<rparr>
         | Some t \<Rightarrow>
             if time (pick (arrival res)) < t
             then ev\<lparr>result := r\<lparr>refProcId := procId\<rparr>,
                     refPickTime := Some (time (pick (arrival res)))\<rparr>
             else ev\<lparr>result := r\<rparr>)"

subsection \<open>linker.cpp: process\<close>

text \<open>
  The locals \<^verbatim>\<open>arrivals\<close> and \<^verbatim>\<open>wfIds\<close> that \<^verbatim>\<open>process\<close> builds for a queued
  event: the arrival of the new result followed by every arrival the event stores, and the
  stream identifiers of the stored arrivals.
\<close>

definition merge_arrivals :: "TemplateResult \<Rightarrow> Event \<Rightarrow> Arrival list" where
  "merge_arrivals res ev = arrival res # map (\<lambda>pr. arrival (snd pr)) (results (result ev))"

definition merge_wfIds :: "Event \<Rightarrow> string set" where
  "merge_wfIds ev =
     set (map (\<lambda>pr. waveformStreamId (pick (arrival (snd pr)))) (results (result ev)))"

text \<open>
  One iteration of the loop over the queue (lines 139 to 172). It takes the reference table
  \<^verbatim>\<open>_pot\<close> as the previous iteration left it and returns it together with the event.
  The \<^verbatim>\<open>continue\<close> of the failed validation leaves the iteration before
  \<^verbatim>\<open>_pot.enable()\<close> is reached.
\<close>

definition merge_step ::
  "validator \<Rightarrow> Linker \<Rightarrow> string \<Rightarrow> TemplateResult \<Rightarrow> POT \<Rightarrow> Event \<Rightarrow> POT \<times> Event" where
  "merge_step validatePickOffsets l procId res rp ev =
     (if getArrivalCount ev < getProcessorCount l then
        (if (case map_of (results (result ev)) procId of
               None \<Rightarrow> True
             | Some it \<Rightarrow> coefficient (matchResult res) > coefficient (matchResult it))
         then
           (let p = POT_of (merge_arrivals res ev) in
            case thresArrivalOffset l of
              None \<Rightarrow> (pot_enable rp, mergeResult procId res p ev)
            | Some thres \<Rightarrow>
                (let rp' = pot_disable (merge_wfIds ev) rp;
                     v = validatePickOffsets rp' p thres
                 in if \<not> fst v \<or> snd v \<noteq> {} then (rp', ev)
                    else (pot_enable rp', mergeResult procId res p ev)))
         else (pot_enable rp, ev))
      else (rp, ev))"

fun merge_loop ::
  "validator \<Rightarrow> Linker \<Rightarrow> string \<Rightarrow> TemplateResult \<Rightarrow> POT \<Rightarrow> Event list \<Rightarrow> POT \<times> Event list" where
  "merge_loop v l procId res rp [] = (rp, [])"
| "merge_loop v l procId res rp (ev # evs) =
     (let s = merge_step v l procId res rp ev;
          r = merge_loop v l procId res (fst s) evs
      in (fst r, snd s # snd r))"

text \<open>
  The first half of \<^verbatim>\<open>process\<close> for a linker with processors (lines 130 to 178): the
  reference table is rebuilt if needed and enabled, the result is merged into the queued
  events, and a new event holding only the result is appended. \<open>now\<close> is the value of
  \<^verbatim>\<open>Core::Time::GMT()\<close>.
\<close>

definition process_merge ::
  "validator \<Rightarrow> TemplateWaveformProcessor \<Rightarrow> TemplateResult \<Rightarrow> real \<Rightarrow> Linker \<Rightarrow> Linker" where
  "process_merge v p res now l =
     (let l1 = (if \<not> potValid l then createPot l else l);
          l2 = l1\<lparr>linkerPot := pot_enable (linkerPot l1)\<rparr>;
          procId = proc_id p;
          m = merge_loop v l2 procId res (linkerPot l2) (queue l2);
          event = mergeResult procId res (POT_of [arrival res]) (Event_init (now + onHold l2))
      in l2\<lparr>linkerPot := fst m, queue := snd m @ [event]\<rparr>)"

text \<open>
  The second half (lines 180 to 201): the loop that emits and collects the iterators of the
  events to erase, and the loop that erases them. The function returns the results handed to
  \<^verbatim>\<open>emitResult\<close> and the events that stay.
\<close>

fun sweep :: "Linker \<Rightarrow> real \<Rightarrow> Event list \<Rightarrow> Result list \<times> Event list" where
  "sweep l now [] = ([], [])"
| "sweep l now (it # evs) =
     (let r = sweep l now evs;
          arrivalCount = getArrivalCount it
      in if arrivalCount = getProcessorCount l \<or>
            (now \<ge> expired it \<and>
             arrivalCount \<ge> (case minArrivals l of None \<Rightarrow> getProcessorCount l | Some n \<Rightarrow> n))
         then
           ((if (case thresResult l of None \<Rightarrow> True | Some t \<Rightarrow> fit (result it) \<ge> t)
             then emitResult l (result it) else []) @ fst r,
            snd r)
         else if now \<ge> expired it then (fst r, snd r)
         else (fst r, it # snd r))"

definition process ::
  "validator \<Rightarrow> TemplateWaveformProcessor \<Rightarrow> TemplateResult \<Rightarrow> real \<Rightarrow> Linker
     \<Rightarrow> Linker \<times> Result list" where
  "process v p res now l =
     (if processors l \<noteq> [] then
        (let l' = process_merge v p res now l;
             s = sweep l' now (queue l')
         in (l'\<lparr>queue := snd s\<rparr>, fst s))
      else (l, []))"

subsection \<open>linker.cpp: terminate and feed\<close>

text \<open>The loop of \<^verbatim>\<open>terminate\<close>: every pass handles the front event and pops it.\<close>

fun flush :: "Linker \<Rightarrow> Event list \<Rightarrow> Result list" where
  "flush l [] = []"
| "flush l (event # evs) =
     (if getArrivalCount event \<ge> (case minArrivals l of None \<Rightarrow> getProcessorCount l | Some n \<Rightarrow> n) \<and>
         (case thresResult l of None \<Rightarrow> True | Some t \<Rightarrow> fit (result event) \<ge> t)
      then emitResult l (result event) else []) @ flush l evs"

definition terminate :: "Linker \<Rightarrow> Linker \<times> Result list" where
  "terminate l = (l\<lparr>queue := [], status := kTerminated\<rparr>, flush l (queue l))"

text \<open>Both pointers handed to \<^verbatim>\<open>feed\<close> may be null: \<open>None\<close>.\<close>

definition feed ::
  "validator \<Rightarrow> TemplateWaveformProcessor option \<Rightarrow> MatchResult option \<Rightarrow> real \<Rightarrow> Linker
     \<Rightarrow> Linker \<times> Result list" where
  "feed v p res now l =
     (case p of
        None \<Rightarrow> (l, [])
      | Some tp \<Rightarrow>
          (case res of
             None \<Rightarrow> (l, [])
           | Some r \<Rightarrow>
               if status_rank (status l) < status_rank kTerminated then
                 (case map_of (processors l) (proc_id tp) of
                    None \<Rightarrow> (l, [])
                  | Some linkerProc \<Rightarrow>
                      (case templateStartTime (proc linkerProc) of
                         None \<Rightarrow> (l, [])
                       | Some t0 \<Rightarrow>
                           (let newArrival = procArrival linkerProc;
                                pickOffset = time (pick (procArrival linkerProc)) - t0;
                                t = startTime (timeWindow r) + lag r + pickOffset
                            in process v tp
                                 \<lparr>arrival = newArrival\<lparr>pick := (pick newArrival)\<lparr>time := t\<rparr>\<rparr>,
                                  matchResult = r\<rparr>
                                 now l)))
               else (l, [])))"

subsection \<open>Concrete inputs\<close>

text \<open>
  The arithmetic without rounding error. On the trace and the first three windows below
  every operand and every result is a multiple of 1/2 of small size, which a \<^verbatim>\<open>double\<close>
  holds exactly. For the fourth window the exact products are 2 and 2.8, and the quotient is
  1; a rounding error below 1/5 leaves their truncations as they are.
\<close>

definition exact_doubles :: Doubles where
  "exact_doubles =
     \<lparr>span_to_double = (\<lambda>x. x), double_to_span = (\<lambda>x. x),
      dmul = (\<lambda>x y. x * y), ddiv = (\<lambda>x y. x / y)\<rparr>"

text \<open>
  A trace of four samples at 2 Hz that starts at time 0 (its samples are taken at 0, 0.5, 1
  and 1.5, and it ends at 2), and four windows: one that starts a second before the trace,
  one that ends a second after it, one inside it, and one from 1 to 2.4, which reaches
  past the end of the trace and past the instant 2 at which a fifth sample would be taken.
\<close>

definition trace4 :: GenericRecord where
  "trace4 = \<lparr>recStartTime = 0, samplingFrequency = 2, data = [1, 2, 3, 4]\<rparr>"

definition window_before :: TimeWindow where
  "window_before = \<lparr>startTime = - 1, endTime = 1\<rparr>"

definition window_past_end :: TimeWindow where
  "window_past_end = \<lparr>startTime = 1, endTime = 3\<rparr>"

definition window_inside :: TimeWindow where
  "window_inside = \<lparr>startTime = 1 / 2, endTime = 3 / 2\<rparr>"

definition window_overhang :: TimeWindow where
  "window_overhang = \<lparr>startTime = 1, endTime = 12 / 5\<rparr>"

text \<open>
  Three template processors on three streams, a second processor on the stream of the
  first (another phase of the same channel), and a processor that reuses the identifier of
  the first.
\<close>

definition procA :: TemplateWaveformProcessor where
  "procA = \<lparr>proc_id = ''A'', templateStartTime = Some 0\<rparr>"

definition procB :: TemplateWaveformProcessor where
  "procB = \<lparr>proc_id = ''B'', templateStartTime = Some 0\<rparr>"

definition procC :: TemplateWaveformProcessor where
  "procC = \<lparr>proc_id = ''C'', templateStartTime = Some 0\<rparr>"

definition procA_S :: TemplateWaveformProcessor where
  "procA_S = \<lparr>proc_id = ''A.S'', templateStartTime = Some 1\<rparr>"

definition procA_again :: TemplateWaveformProcessor where
  "procA_again = \<lparr>proc_id = ''A'', templateStartTime = Some 7\<rparr>"

definition arrA :: Arrival where
  "arrA = \<lparr>pick = \<lparr>time = 1, waveformStreamId = ''SA''\<rparr>, phase = ''Pg''\<rparr>"

definition arrB :: Arrival where
  "arrB = \<lparr>pick = \<lparr>time = 2, waveformStreamId = ''SB''\<rparr>, phase = ''Pg''\<rparr>"

definition arrC :: Arrival where
  "arrC = \<lparr>pick = \<lparr>time = 3, waveformStreamId = ''SC''\<rparr>, phase = ''Pg''\<rparr>"

definition arrA_S :: Arrival where
  "arrA_S = \<lparr>pick = \<lparr>time = 4, waveformStreamId = ''SA''\<rparr>, phase = ''Sg''\<rparr>"

definition arrA_again :: Arrival where
  "arrA_again = \<lparr>pick = \<lparr>time = 9, waveformStreamId = ''SA''\<rparr>, phase = ''Pg''\<rparr>"

text \<open>
  Stand-ins for \<^verbatim>\<open>validatePickOffsets\<close> at the concrete inputs: one that accepts every
  candidate and one that rejects every candidate.
\<close>

definition accept_all :: validator where
  "accept_all reference candidate thres = (True, {})"

definition reject_all :: validator where
  "reject_all reference candidate thres = (False, {})"

text \<open>
  Match results: two of processor \<open>A\<close> (the second with the larger coefficient and the
  earlier pick), one of processor \<open>B\<close> and one of processor \<open>C\<close>. With the template
  start time 0 and the template picks above, \<^verbatim>\<open>feed\<close> turns them into the template
  results \<open>resA1\<close>, \<open>resA2\<close>, \<open>resB\<close> and \<open>resC\<close>, picked at 10, 3, 5 and 6.
\<close>

definition matchA1 :: MatchResult where
  "matchA1 = \<lparr>coefficient = 1 / 2, lag = 0, timeWindow = \<lparr>startTime = 9, endTime = 12\<rparr>\<rparr>"

definition matchA2 :: MatchResult where
  "matchA2 = \<lparr>coefficient = 9 / 10, lag = 0, timeWindow = \<lparr>startTime = 2, endTime = 5\<rparr>\<rparr>"

definition matchB :: MatchResult where
  "matchB = \<lparr>coefficient = 7 / 10, lag = 1, timeWindow = \<lparr>startTime = 2, endTime = 5\<rparr>\<rparr>"

definition matchC :: MatchResult where
  "matchC = \<lparr>coefficient = 4 / 5, lag = 0, timeWindow = \<lparr>startTime = 3, endTime = 6\<rparr>\<rparr>"

definition resA1 :: TemplateResult where
  "resA1 = \<lparr>arrival = arrA\<lparr>pick := (pick arrA)\<lparr>time := 10\<rparr>\<rparr>, matchResult = matchA1\<rparr>"

definition resA2 :: TemplateResult where
  "resA2 = \<lparr>arrival = arrA\<lparr>pick := (pick arrA)\<lparr>time := 3\<rparr>\<rparr>, matchResult = matchA2\<rparr>"

definition resB :: TemplateResult where
  "resB = \<lparr>arrival = arrB\<lparr>pick := (pick arrB)\<lparr>time := 5\<rparr>\<rparr>, matchResult = matchB\<rparr>"

definition resC :: TemplateResult where
  "resC = \<lparr>arrival = arrC\<lparr>pick := (pick arrC)\<lparr>time := 6\<rparr>\<rparr>, matchResult = matchC\<rparr>"

text \<open>
  A linker with the processors \<open>A\<close>, \<open>B\<close> and \<open>C\<close>, a callback, an on-hold span of 100
  seconds and the arrival offset threshold parameter; and the states it reaches when fed
  \<open>matchA1\<close> at time 0, \<open>matchB\<close> at time 1 and \<open>matchA2\<close> at time 2.
\<close>

definition linker3 :: "real option \<Rightarrow> Linker" where
  "linker3 thres =
     setThresArrivalOffset thres (setResultCallback
       (add (Some procC) arrC (add (Some procB) arrB (add (Some procA) arrA
          (Linker_init 100 (2 / 10 ^ 6))))))"

definition fed1 :: "validator \<Rightarrow> real option \<Rightarrow> Linker" where
  "fed1 v thres = fst (feed v (Some procA) (Some matchA1) 0 (linker3 thres))"

definition fed2 :: "validator \<Rightarrow> real option \<Rightarrow> Linker" where
  "fed2 v thres = fst (feed v (Some procB) (Some matchB) 1 (fed1 v thres))"

definition fed3 :: "validator \<Rightarrow> real option \<Rightarrow> Linker" where
  "fed3 v thres = fst (feed v (Some procA) (Some matchA2) 2 (fed2 v thres))"

section \<open>Properties\<close>

subsection \<open>Unfolding the concrete inputs and the linker's functions\<close>

lemmas ex_defs = trace4_def window_before_def window_past_end_def window_inside_def
  window_overhang_def exact_doubles_def
  procA_def procB_def procC_def procA_S_def procA_again_def arrA_def arrB_def arrC_def
  arrA_S_def arrA_again_def accept_all_def reject_all_def matchA1_def matchA2_def matchB_def
  matchC_def resA1_def resA2_def resB_def resC_def linker3_def Linker_init_def
  setThresArrivalOffset_def setResultCallback_def add_def emplace_def remove_def
  fed1_def fed2_def fed3_def

lemmas run_defs = feed_def process_def process_merge_def merge_step_def mergeResult_def
  createPot_def POT_of_def pot_enable_def pot_disable_def Event_init_def getArrivalCount_def
  getProcessorCount_def emitResult_def cma_def merge_arrivals_def merge_wfIds_def Let_def

lemmas trim_defs = Trim_def trim_offset_def trim_samples_def static_cast_int_def add_int_def
  slice_def length_tw_def Let_def

subsection \<open>Threshold validators\<close>

text \<open>
  Claim C9. \<^verbatim>\<open>ValidateXCorrThreshold\<close> accepts a value exactly when it lies in
  \<open>[-1, 1]\<close>, and \<^verbatim>\<open>ValidateArrivalOffsetThreshold\<close> accepts a value exactly when it is
  negative or at least two microseconds.
\<close>

theorem validators_thresholds:
  "(ValidateXCorrThreshold t \<longleftrightarrow> \<bar>t\<bar> \<le> 1) \<and>
   (ValidateArrivalOffsetThreshold u \<longleftrightarrow> (u < 0 \<or> 2 / 1000000 \<le> u))"
  by (auto simp: ValidateXCorrThreshold_def ValidateArrivalOffsetThreshold_def)

subsection \<open>Trim\<close>

lemma static_cast_int_neg: "static_cast_int x = Some k \<Longrightarrow> (k < 0) = (x \<le> - 1)"
  unfolding static_cast_int_def Let_def
  by (auto split: if_splits simp: ceiling_less_iff floor_less_iff)

text \<open>
  The truncation follows the rounded product: for a window of 0.29 s at 100 Hz the
  \<^verbatim>\<open>double\<close> product is 28.999999999999996, and the number of samples is 28.
\<close>

lemma trim_samples_rounded_product:
  assumes "dmul fp (length_tw fp tw) (samplingFrequency tr) = 28999999999999996 / 1000000000000000"
  shows "trim_samples fp tr tw = Some 28"
proof -
  have "(28::real) \<le> 28999999999999996 / 1000000000000000"
    and "(28999999999999996 / 1000000000000000 :: real) < 29"
    by simp_all
  then have "\<lfloor>28999999999999996 / 1000000000000000 :: real\<rfloor> = 28"
    by linarith
  then have "static_cast_int (28999999999999996 / 1000000000000000) = Some 28"
    unfolding static_cast_int_def Let_def by simp
  then show ?thesis
    unfolding trim_samples_def by (simp only: assms)
qed

lemma Trim_False_unchanged: "Trim fp tr tw = Some (False, tr') \<Longrightarrow> tr' = tr"
  unfolding Trim_def by (auto split: option.splits if_splits)

lemma Trim_True_shape:
  "Trim fp tr tw = Some (True, tr') \<Longrightarrow>
   (\<exists>off n. trim_offset fp tr tw = Some off \<and> trim_samples fp tr tw = Some n \<and> 0 \<le> off \<and>
      off + n \<le> int (length (data tr)) \<and>
      tr' = tr\<lparr>recStartTime := recStartTime tr +
                   double_to_span fp (ddiv fp (real_of_int off) (samplingFrequency tr)),
               data := slice (data tr) off (off + n)\<rparr>)"
  unfolding Trim_def add_int_def by (auto split: option.splits if_splits)

lemma Trim_accepts:
  "trim_offset fp tr tw = Some off \<Longrightarrow> trim_samples fp tr tw = Some n \<Longrightarrow> 0 \<le> off \<Longrightarrow>
   off + n \<le> int (length (data tr)) \<Longrightarrow> int (length (data tr)) < 2 ^ 31 \<Longrightarrow>
   Trim fp tr tw =
     Some (True, tr\<lparr>recStartTime := recStartTime tr +
                         double_to_span fp (ddiv fp (real_of_int off) (samplingFrequency tr)),
                       data := slice (data tr) off (off + n)\<rparr>)"
  unfolding Trim_def add_int_def trim_samples_def static_cast_int_def Let_def
  by (auto split: option.splits if_splits)

lemma Trim_rejects:
  "trim_offset fp tr tw = Some off \<Longrightarrow> trim_samples fp tr tw = Some n \<Longrightarrow>
   off < 0 \<or> (int (length (data tr)) < off + n \<and> off + n < 2 ^ 31) \<Longrightarrow>
   Trim fp tr tw = Some (False, tr)"
  unfolding Trim_def add_int_def
  by (auto split: option.splits if_splits)

text \<open>
  Claim C10 states that \<^verbatim>\<open>Trim\<close> returns false and leaves the trace unchanged whenever the
  window requires samples before the trace's start or past its end. The window from 1 to
  2.4 on the four-sample trace reaches past the end of the trace (2), and past the instant
  of a fifth sample; its length of 2.8 sample periods is truncated to 2 samples, and
  \<^verbatim>\<open>Trim\<close> returns true and cuts the trace down to its last two samples.
\<close>

theorem Trim_overhang_counterexample:
  "recStartTime trace4 + real (length (data trace4)) / samplingFrequency trace4
     < endTime window_overhang \<and>
   Trim exact_doubles trace4 window_overhang =
     Some (True, \<lparr>recStartTime = 1, samplingFrequency = 2, data = [3, 4]\<rparr>)"
proof -
  have "\<lfloor>14 / 5 :: real\<rfloor> = 2"
    by (simp add: floor_eq_iff)
  then show ?thesis
    by (simp add: Trim_def trim_offset_def trim_samples_def static_cast_int_def add_int_def
        slice_def length_tw_def Let_def ex_defs)
qed

text \<open>
  The same holds whatever the rounding, as long as the two products truncate to 2: the
  window is accepted and the data are cut down to the last two samples.
\<close>

lemma Trim_overhang_any_rounding:
  assumes "\<lfloor>dmul fp (span_to_double fp 1) 2\<rfloor> = 2"
    and "\<lfloor>dmul fp (span_to_double fp (7 / 5)) 2\<rfloor> = 2"
  shows "\<exists>t. Trim fp trace4 window_overhang =
               Some (True, \<lparr>recStartTime = t, samplingFrequency = 2, data = [3, 4]\<rparr>)"
proof -
  have p1: "0 \<le> dmul fp (span_to_double fp 1) 2"
    using assms(1) by linarith
  have p2: "0 \<le> dmul fp (span_to_double fp (7 / 5)) 2"
    using assms(2) by linarith
  have o: "trim_offset fp trace4 window_overhang = Some 2"
    using assms(1) p1 by (simp add: trim_offset_def static_cast_int_def ex_defs)
  have n: "trim_samples fp trace4 window_overhang = Some 2"
    using assms(2) p2 by (simp add: trim_samples_def length_tw_def static_cast_int_def ex_defs)
  from Trim_accepts[OF o n] show ?thesis
    by (simp add: ex_defs slice_def)
qed

text \<open>
  Claim C10, amended. Let \<open>off\<close> be the \<^verbatim>\<open>double\<close> product of the start difference
  (window start minus trace start) and the sampling frequency, truncated toward zero, and
  \<open>n\<close> the \<^verbatim>\<open>double\<close> product of the window length and the sampling frequency, truncated
  toward zero, as \<^verbatim>\<open>Trim\<close> computes them. If \<open>off < 0\<close> (which is the case exactly when
  the first product is at most \<open>-1\<close>) or \<open>off + n\<close> exceeds the number of samples (the sum
  being representable), \<^verbatim>\<open>Trim\<close> returns false and the trace is unchanged. Whenever
  \<^verbatim>\<open>Trim\<close> returns false the trace is unchanged; when it returns true, \<open>0 \<le> off\<close> and
  \<open>off + n\<close> is at most the number of samples, the start time has advanced by the time span
  of \<open>off\<close> sample periods and the data are the slice \<open>[off, off + n)\<close>. It does return true
  when \<open>0 \<le> off\<close> and \<open>off + n\<close> is at most the number of samples (of a trace with fewer than
  \<open>2\<^sup>3\<^sup>1\<close> of them). This holds for every rounding of the floating-point operations.
\<close>

theorem Trim_insufficient_data:
  "(trim_offset fp tr tw = Some off \<and> trim_samples fp tr tw = Some n \<and>
    (off < 0 \<or> (int (length (data tr)) < off + n \<and> off + n < 2 ^ 31))
      \<longrightarrow> Trim fp tr tw = Some (False, tr)) \<and>
   (trim_offset fp tr tw = Some off
      \<longrightarrow> (off < 0) =
            (dmul fp (span_to_double fp (startTime tw - recStartTime tr)) (samplingFrequency tr)
               \<le> - 1)) \<and>
   (Trim fp tr tw = Some (False, tr') \<longrightarrow> tr' = tr) \<and>
   (Trim fp tr tw = Some (True, tr') \<longrightarrow>
      (\<exists>k m. trim_offset fp tr tw = Some k \<and> trim_samples fp tr tw = Some m \<and> 0 \<le> k \<and>
         k + m \<le> int (length (data tr)) \<and>
         tr' = tr\<lparr>recStartTime := recStartTime tr +
                      double_to_span fp (ddiv fp (real_of_int k) (samplingFrequency tr)),
                  data := slice (data tr) k (k + m)\<rparr>)) \<and>
   (trim_offset fp tr tw = Some off \<and> trim_samples fp tr tw = Some n \<and> 0 \<le> off \<and>
    off + n \<le> int (length (data tr)) \<and> int (length (data tr)) < 2 ^ 31
      \<longrightarrow> Trim fp tr tw =
            Some (True, tr\<lparr>recStartTime := recStartTime tr +
                                double_to_span fp (ddiv fp (real_of_int off) (samplingFrequency tr)),
                              data := slice (data tr) off (off + n)\<rparr>))"
proof -
  have neg: "trim_offset fp tr tw = Some off \<Longrightarrow>
        (off < 0) =
        (dmul fp (span_to_double fp (startTime tw - recStartTime tr)) (samplingFrequency tr)
           \<le> - 1)"
    unfolding trim_offset_def by (rule static_cast_int_neg)
  show ?thesis
    using Trim_rejects[of fp tr tw off n] Trim_False_unchanged[of fp tr tw tr']
      Trim_True_shape[of fp tr tw tr'] Trim_accepts[of fp tr tw off n] neg
    by blast
qed

text \<open>
  The first three windows on the four-sample trace: the one that starts a second before
  the trace and the one that ends a second after it are refused and the trace stays as it
  is; the one inside it is accepted.
\<close>

theorem Trim_insufficient_data_witness:
  "trim_offset exact_doubles trace4 window_before = Some (- 2) \<and>
   Trim exact_doubles trace4 window_before = Some (False, trace4) \<and>
   trim_offset exact_doubles trace4 window_past_end = Some 2 \<and>
   trim_samples exact_doubles trace4 window_past_end = Some 4 \<and>
   Trim exact_doubles trace4 window_past_end = Some (False, trace4) \<and>
   Trim exact_doubles trace4 window_inside =
     Some (True, \<lparr>recStartTime = 1 / 2, samplingFrequency = 2, data = [2, 3]\<rparr>)"
proof -
  have a: "trim_offset exact_doubles trace4 window_before = Some (- 2)"
    and b: "trim_samples exact_doubles trace4 window_before = Some 4"
    and c: "trim_offset exact_doubles trace4 window_past_end = Some 2"
    and d: "trim_samples exact_doubles trace4 window_past_end = Some 4"
    and e: "trim_offset exact_doubles trace4 window_inside = Some 1"
    and f: "trim_samples exact_doubles trace4 window_inside = Some 2"
    by (simp_all add: trim_defs ex_defs)
  have len: "int (length (data trace4)) = 4"
    by (simp add: trace4_def)
  have r: "trace4\<lparr>recStartTime := recStartTime trace4 +
              double_to_span exact_doubles (ddiv exact_doubles (real_of_int 1) (samplingFrequency trace4)),
            data := slice (data trace4) 1 (1 + 2)\<rparr> =
           \<lparr>recStartTime = 1 / 2, samplingFrequency = 2, data = [2, 3]\<rparr>"
    by (simp add: ex_defs slice_def)
  note T1 = Trim_insufficient_data[of exact_doubles trace4 window_before "- 2" 4, THEN conjunct1]
  note T2 = Trim_insufficient_data[of exact_doubles trace4 window_past_end 2 4, THEN conjunct1]
  note T3 = Trim_insufficient_data[of exact_doubles trace4 window_inside 1 2,
      THEN conjunct2, THEN conjunct2, THEN conjunct2, THEN conjunct2]
  have 1: "Trim exact_doubles trace4 window_before = Some (False, trace4)"
    using T1 a b by simp
  have 2: "Trim exact_doubles trace4 window_past_end = Some (False, trace4)"
    using T2 c d len by simp
  have 3: "Trim exact_doubles trace4 window_inside =
     Some (True, \<lparr>recStartTime = 1 / 2, samplingFrequency = 2, data = [2, 3]\<rparr>)"
    using T3 e f len by (simp only: r[symmetric]) simp
  from a c d 1 2 3 show ?thesis by blast
qed

subsection \<open>The sweep of process\<close>

lemma sweep_emitted:
  "resultCallback l \<Longrightarrow>
   fst (sweep l now q) =
     map result (filter (\<lambda>e.
        (getArrivalCount e = getProcessorCount l \<or>
         (expired e \<le> now \<and>
          (case minArrivals l of None \<Rightarrow> getProcessorCount l | Some n \<Rightarrow> n) \<le> getArrivalCount e)) \<and>
        (case thresResult l of None \<Rightarrow> True | Some t \<Rightarrow> t \<le> fit (result e))) q)"
  by (induction q) (simp_all add: Let_def emitResult_def)

lemma sweep_kept:
  "snd (sweep l now q) =
     filter (\<lambda>e. getArrivalCount e \<noteq> getProcessorCount l \<and> now < expired e) q"
  by (induction q) (auto simp: Let_def)

lemma length_merge_loop: "length (snd (merge_loop v l procId res rp q)) = length q"
  by (induction q arbitrary: rp) (simp_all add: Let_def)

lemma process_merge_frame:
  "resultCallback (process_merge v p res now l) = resultCallback l"
  "processors (process_merge v p res now l) = processors l"
  "minArrivals (process_merge v p res now l) = minArrivals l"
  "thresResult (process_merge v p res now l) = thresResult l"
  by (simp_all add: process_merge_def Let_def createPot_def)

lemma process_merge_queue:
  "queue (process_merge v p res now l) =
     snd (merge_loop v
            ((if \<not> potValid l then createPot l else l)
               \<lparr>linkerPot := pot_enable (linkerPot (if \<not> potValid l then createPot l else l))\<rparr>)
            (proc_id p) res
            (pot_enable (linkerPot (if \<not> potValid l then createPot l else l))) (queue l)) @
     [mergeResult (proc_id p) res (POT_of [arrival res]) (Event_init (now + onHold l))]"
  by (simp add: process_merge_def Let_def createPot_def)

text \<open>
  Claim C1. Let a linker have a callback and at least one processor, and let \<open>q\<close> be its
  queue when the sweep of \<^verbatim>\<open>process\<close> starts: the queued events after the merge, followed
  by the new event that holds only the new result. The results emitted are those of exactly
  the events of \<open>q\<close>, in order, whose arrival count equals the number of processors or whose
  deadline has passed with at least \<open>minArrivals\<close> arrivals (the number of processors when
  unset), and whose fit reaches the result threshold if one is set. The events that stay
  queued are exactly those that are neither fully associated nor past their deadline; so
  every emitted and every expired event leaves the queue, emitted or not.
\<close>

theorem process_sweep:
  assumes cb: "resultCallback l" and ne: "processors l \<noteq> []"
  shows "snd (process v p res now l) =
           map result (filter (\<lambda>e.
              (getArrivalCount e = getProcessorCount l \<or>
               (expired e \<le> now \<and>
                (case minArrivals l of None \<Rightarrow> getProcessorCount l | Some n \<Rightarrow> n)
                  \<le> getArrivalCount e)) \<and>
              (case thresResult l of None \<Rightarrow> True | Some t \<Rightarrow> t \<le> fit (result e)))
            (queue (process_merge v p res now l))) \<and>
         queue (fst (process v p res now l)) =
           filter (\<lambda>e. getArrivalCount e \<noteq> getProcessorCount l \<and> now < expired e)
             (queue (process_merge v p res now l)) \<and>
         length (queue (process_merge v p res now l)) = Suc (length (queue l)) \<and>
         last (queue (process_merge v p res now l)) =
           mergeResult (proc_id p) res (POT_of [arrival res]) (Event_init (now + onHold l))"
proof -
  let ?l' = "process_merge v p res now l"
  have cnt: "getProcessorCount ?l' = getProcessorCount l"
    by (simp add: getProcessorCount_def process_merge_frame)
  have cb': "resultCallback ?l'"
    using cb by (simp add: process_merge_frame)
  have out: "snd (process v p res now l) = fst (sweep ?l' now (queue ?l'))"
    using ne by (simp add: process_def Let_def)
  have keep: "queue (fst (process v p res now l)) = snd (sweep ?l' now (queue ?l'))"
    using ne by (simp add: process_def Let_def)
  have len: "length (queue ?l') = Suc (length (queue l))"
    by (simp add: process_merge_queue length_merge_loop)
  have lst: "last (queue ?l') =
      mergeResult (proc_id p) res (POT_of [arrival res]) (Event_init (now + onHold l))"
    by (simp add: process_merge_queue)
  show ?thesis
    unfolding out keep
    by (simp only: sweep_emitted[OF cb'] sweep_kept cnt process_merge_frame len lst simp_thms)
qed

text \<open>
  The linker with three processors, after a result of \<open>A\<close> and one of \<open>B\<close>, receives a
  result of \<open>C\<close> at time 101. The first event becomes fully associated and is emitted; the
  second, with two arrivals, passes its deadline 101 and is dropped; the new event stays.
\<close>

theorem process_sweep_witness:
  "resultCallback (fed2 accept_all None) \<and> processors (fed2 accept_all None) \<noteq> [] \<and>
   map (\<lambda>r. map fst (results r)) (snd (process accept_all procC resC 101 (fed2 accept_all None)))
     = [[''A'', ''B'', ''C'']] \<and>
   map (\<lambda>e. (map fst (results (result e)), expired e))
     (queue (process_merge accept_all procC resC 101 (fed2 accept_all None)))
     = [([''A'', ''B'', ''C''], 100), ([''B'', ''C''], 101), ([''C''], 201)] \<and>
   map (\<lambda>e. (map fst (results (result e)), expired e))
     (queue (fst (process accept_all procC resC 101 (fed2 accept_all None))))
     = [([''C''], 201)]"
proof -
  have cb: "resultCallback (fed2 accept_all None)"
    by (simp add: ex_defs run_defs)
  have ne: "processors (fed2 accept_all None) \<noteq> []"
    by (simp add: ex_defs run_defs)
  have q: "map (\<lambda>e. (map fst (results (result e)), expired e))
     (queue (process_merge accept_all procC resC 101 (fed2 accept_all None)))
     = [([''A'', ''B'', ''C''], 100), ([''B'', ''C''], 101), ([''C''], 201)]"
    by (simp add: ex_defs run_defs)
  have n: "getProcessorCount (fed2 accept_all None) = 3"
    "minArrivals (fed2 accept_all None) = None" "thresResult (fed2 accept_all None) = None"
    by (simp_all add: ex_defs run_defs)
  from process_sweep[OF cb ne, of accept_all procC resC 101] cb ne q
  show ?thesis
    apply (simp only: n)
    apply (simp add: ex_defs run_defs)
    done
qed

subsection \<open>terminate\<close>

lemma flush_emitted:
  "resultCallback l \<Longrightarrow>
   flush l q =
     map result (filter (\<lambda>e.
        (case minArrivals l of None \<Rightarrow> getProcessorCount l | Some n \<Rightarrow> n) \<le> getArrivalCount e \<and>
        (case thresResult l of None \<Rightarrow> True | Some t \<Rightarrow> t \<le> fit (result e))) q)"
  by (induction q) (simp_all add: emitResult_def)

text \<open>
  Claim C6. For a linker with a callback, \<^verbatim>\<open>terminate\<close> leaves the queue empty and the
  status \<^verbatim>\<open>kTerminated\<close>, and it emits, in queue order, the results of exactly the
  queued events whose arrival count reaches \<open>minArrivals\<close> (the number of processors when
  unset) and whose fit reaches the result threshold if one is set; the deadline of an event
  plays no part. In particular, when the queue holds a fully associated event that meets
  the result threshold and an event below \<open>minArrivals\<close>, in either order, and
  \<open>minArrivals\<close> does not exceed the number of processors (as it does not when unset),
  exactly the result of the fully associated event is emitted.
\<close>

theorem terminate_flush:
  assumes cb: "resultCallback l"
  shows "fst (terminate l) = l\<lparr>queue := [], status := kTerminated\<rparr> \<and>
         snd (terminate l) =
           map result (filter (\<lambda>e.
              (case minArrivals l of None \<Rightarrow> getProcessorCount l | Some n \<Rightarrow> n)
                \<le> getArrivalCount e \<and>
              (case thresResult l of None \<Rightarrow> True | Some t \<Rightarrow> t \<le> fit (result e)))
            (queue l)) \<and>
         ((queue l = [e1, e2] \<or> queue l = [e2, e1]) \<and>
          getArrivalCount e1 = getProcessorCount l \<and>
          getArrivalCount e2 < (case minArrivals l of None \<Rightarrow> getProcessorCount l | Some n \<Rightarrow> n) \<and>
          (case minArrivals l of None \<Rightarrow> getProcessorCount l | Some n \<Rightarrow> n) \<le> getProcessorCount l \<and>
          (case thresResult l of None \<Rightarrow> True | Some t \<Rightarrow> t \<le> fit (result e1))
          \<longrightarrow> snd (terminate l) = [result e1])"
  using cb by (auto simp: terminate_def flush_emitted)

text \<open>
  The linker fed a result of \<open>A\<close> and one of \<open>B\<close> holds an event with both and an event
  with \<open>B\<close> only. Once processor \<open>C\<close> is removed the first is fully associated, and
  \<^verbatim>\<open>terminate\<close> emits it alone.
\<close>

theorem terminate_flush_witness:
  "resultCallback (remove ''C'' (fed2 accept_all None)) \<and>
   map getArrivalCount (queue (remove ''C'' (fed2 accept_all None))) = [2, 1] \<and>
   getProcessorCount (remove ''C'' (fed2 accept_all None)) = 2 \<and>
   minArrivals (remove ''C'' (fed2 accept_all None)) = None \<and>
   snd (terminate (remove ''C'' (fed2 accept_all None))) =
     [result (hd (queue (fed2 accept_all None)))] \<and>
   queue (fst (terminate (remove ''C'' (fed2 accept_all None)))) = [] \<and>
   status (fst (terminate (remove ''C'' (fed2 accept_all None)))) = kTerminated"
proof -
  let ?l = "remove ''C'' (fed2 accept_all None)"
  have cb: "resultCallback ?l"
    by (simp add: ex_defs run_defs)
  from terminate_flush[OF cb, of "queue ?l ! 0" "queue ?l ! 1"] cb
  show ?thesis
    by (simp add: ex_defs run_defs)
qed

subsection \<open>feed\<close>

text \<open>
  Claim C5. When a match result is fed to a linker that is not terminated, for a
  registered processor whose template start time is known, \<^verbatim>\<open>feed\<close> calls
  \<^verbatim>\<open>process\<close> with the registered template arrival whose pick time is replaced by the
  start of the match window plus the lag plus the offset of the template pick from the
  template start, together with the match result.
\<close>

theorem feed_pick_time:
  assumes "status l \<noteq> kTerminated"
    and "map_of (processors l) (proc_id tp) = Some linkerProc"
    and "templateStartTime (proc linkerProc) = Some t0"
  shows "feed v (Some tp) (Some r) now l =
           process v tp
             \<lparr>arrival = (procArrival linkerProc)
                 \<lparr>pick := (pick (procArrival linkerProc))
                    \<lparr>time := startTime (timeWindow r) + lag r +
                              (time (pick (procArrival linkerProc)) - t0)\<rparr>\<rparr>,
              matchResult = r\<rparr> now l"
  using assms by (cases "status l") (simp_all add: feed_def Let_def)

text \<open>
  Processor \<open>B\<close>: template pick at 2, template start at 0, match window starting at 2 with
  lag 1; the arrival handed to \<^verbatim>\<open>process\<close> is picked at 5.
\<close>

theorem feed_pick_time_witness:
  "status (linker3 None) \<noteq> kTerminated \<and>
   map_of (processors (linker3 None)) (proc_id procB) = Some \<lparr>proc = procB, procArrival = arrB\<rparr> \<and>
   templateStartTime procB = Some 0 \<and>
   feed accept_all (Some procB) (Some matchB) 1 (linker3 None) =
     process accept_all procB resB 1 (linker3 None) \<and>
   time (pick (arrival resB)) = 5"
proof -
  have s: "status (linker3 None) \<noteq> kTerminated"
    and m: "map_of (processors (linker3 None)) (proc_id procB) =
              Some \<lparr>proc = procB, procArrival = arrB\<rparr>"
    and t: "templateStartTime (proc \<lparr>proc = procB, procArrival = arrB\<rparr>) = Some 0"
    by (simp_all add: ex_defs)
  have f: "time (pick (arrival resB)) = 5"
    by (simp add: ex_defs)
  from feed_pick_time[OF s m t, of accept_all matchB 1]
  have "feed accept_all (Some procB) (Some matchB) 1 (linker3 None) =
          process accept_all procB resB 1 (linker3 None)"
    by (simp add: resB_def matchB_def arrB_def)
  with s m t f show ?thesis by simp
qed

subsection \<open>Counting channels and registering processors\<close>

text \<open>
  Claim C8 states that \<^verbatim>\<open>getAssociatedChannelCount\<close> equals \<^verbatim>\<open>getProcessorCount\<close> in
  every linker state. With two processors registered on the same stream (two phases of one
  channel) the first is 1 and the second is 2.
\<close>

theorem channel_count_counterexample:
  "getAssociatedChannelCount (add (Some procA_S) arrA_S (add (Some procA) arrA (Linker_init 100 (2 / 10 ^ 6))))
     \<noteq> getProcessorCount (add (Some procA_S) arrA_S (add (Some procA) arrA (Linker_init 100 (2 / 10 ^ 6))))"
  by (simp add: ex_defs getAssociatedChannelCount_def getProcessorCount_def)

text \<open>
  Claim C8, amended. \<^verbatim>\<open>getAssociatedChannelCount\<close> is the number of distinct waveform
  stream identifiers among the arrivals of the registered processors. It never exceeds
  \<^verbatim>\<open>getProcessorCount\<close>, and equals it exactly when no two registered arrivals share a
  stream.
\<close>

theorem channel_count_distinct_streams:
  "getAssociatedChannelCount l =
     card ((\<lambda>procPair. waveformStreamId (pick (procArrival (snd procPair)))) ` set (processors l)) \<and>
   getAssociatedChannelCount l \<le> getProcessorCount l \<and>
   (getAssociatedChannelCount l = getProcessorCount l \<longleftrightarrow>
      distinct (map (\<lambda>procPair. waveformStreamId (pick (procArrival (snd procPair)))) (processors l)))"
proof -
  let ?ids = "map (\<lambda>procPair. waveformStreamId (pick (procArrival (snd procPair)))) (processors l)"
  have a: "getAssociatedChannelCount l = card (set ?ids)"
    by (simp add: getAssociatedChannelCount_def length_remdups_card_conv)
  have b: "card (set ?ids) \<le> length ?ids" by (rule card_length)
  have c: "(card (set ?ids) = length ?ids) = distinct ?ids"
    using card_distinct distinct_card by blast
  from a b c show ?thesis by (simp add: getProcessorCount_def)
qed

text \<open>
  Claim C7 states that \<^verbatim>\<open>add\<close> with an identifier that is already registered replaces
  the binding. After \<open>A\<close> is registered and a second processor with the identifier \<open>A\<close> is
  added with another arrival, the lookup of \<open>A\<close> does not yield the second binding.
\<close>

theorem add_duplicate_counterexample:
  "map_of (processors (add (Some procA_again) arrA_again
             (add (Some procA) arrA (Linker_init 100 (2 / 10 ^ 6))))) (proc_id procA_again)
     \<noteq> Some \<lparr>proc = procA_again, procArrival = arrA_again\<rparr>"
  by (simp add: ex_defs)

text \<open>
  Claim C7, amended. \<^verbatim>\<open>add\<close> with a non-null processor whose identifier is already
  registered leaves the registered processors as they are, so a lookup of the identifier
  still yields the earlier binding; the reference table is invalidated.
\<close>

theorem add_duplicate_keeps_binding:
  assumes "map_of (processors l) (proc_id tp) = Some old"
  shows "processors (add (Some tp) a l) = processors l \<and>
         map_of (processors (add (Some tp) a l)) (proc_id tp) = Some old \<and>
         \<not> potValid (add (Some tp) a l)"
  using assms by (simp add: add_def emplace_def)

text \<open>Adding a second processor with the identifier \<open>A\<close> after \<open>A\<close> is registered.\<close>

theorem add_duplicate_keeps_binding_witness:
  "map_of (processors (add (Some procA) arrA (Linker_init 100 (2 / 10 ^ 6)))) (proc_id procA_again)
     = Some \<lparr>proc = procA, procArrival = arrA\<rparr> \<and>
   map_of (processors (add (Some procA_again) arrA_again
             (add (Some procA) arrA (Linker_init 100 (2 / 10 ^ 6))))) (proc_id procA_again)
     = Some \<lparr>proc = procA, procArrival = arrA\<rparr> \<and>
   \<not> potValid (add (Some procA_again) arrA_again
             (add (Some procA) arrA (Linker_init 100 (2 / 10 ^ 6))))"
proof -
  have h: "map_of (processors (add (Some procA) arrA (Linker_init 100 (2 / 10 ^ 6))))
             (proc_id procA_again) = Some \<lparr>proc = procA, procArrival = arrA\<rparr>"
    by (simp add: ex_defs)
  from add_duplicate_keeps_binding[OF h, of arrA_again] h show ?thesis by simp
qed

subsection \<open>Merging a result into a queued event\<close>

lemma mergeResult_existing_entry:
  "map_of (results (result ev)) procId = Some old \<Longrightarrow>
   results (result (mergeResult procId res p ev)) = results (result ev)"
  by (simp add: mergeResult_def emplace_def Let_def split: option.splits)

text \<open>
  Claim C2 states that a result with a larger coefficient replaces the result an event
  stores for the same processor. The code at the input below: the linker with the offset
  threshold set and every candidate accepted is fed \<open>matchA1\<close>, \<open>matchB\<close> and \<open>matchA2\<close>.
  Before the third call the first event stores \<open>resA1\<close> for \<open>A\<close>; \<open>resA2\<close> has the larger
  coefficient; the third call does merge (the table of the event becomes the candidate
  table); and the event still stores \<open>resA1\<close> for \<open>A\<close>.
\<close>

theorem merge_keeps_stored_result:
  "map_of (results (result (hd (queue (fed2 accept_all (Some (2 / 10 ^ 6))))))) ''A'' = Some resA1 \<and>
   coefficient (matchResult resA1) < coefficient (matchResult resA2) \<and>
   pot (result (hd (queue (fed3 accept_all (Some (2 / 10 ^ 6)))))) =
     POT_of (merge_arrivals resA2 (hd (queue (fed2 accept_all (Some (2 / 10 ^ 6)))))) \<and>
   map_of (results (result (hd (queue (fed3 accept_all (Some (2 / 10 ^ 6))))))) ''A'' = Some resA1"
  by (simp add: ex_defs run_defs)

text \<open>
  Claim C3 states that the rows and columns of the streams absent from the event are masked
  for the validation and that the reference table is fully enabled again afterwards. The
  code at the input below: the linker with the offset threshold set is fed \<open>matchA1\<close> and
  then \<open>matchB\<close>. The queued event holds stream \<open>SA\<close> only. The validator is called with the
  reference table in which \<open>SA\<close> is masked and \<open>SB\<close> and \<open>SC\<close> are not; when it rejects the
  candidate, the reference table is left with \<open>SA\<close> masked when the call returns.
\<close>

theorem failed_validation_leaves_mask:
  assumes "\<not> fst (v [(arrA, False), (arrB, True), (arrC, True)]
                    (POT_of [arrival resB, arrival resA1]) (2 / 10 ^ 6))"
  shows "map (\<lambda>e. map fst (results (result e))) (queue (fed1 v (Some (2 / 10 ^ 6)))) = [[''A'']] \<and>
         linkerPot (fed1 v (Some (2 / 10 ^ 6))) = [(arrA, True), (arrB, True), (arrC, True)] \<and>
         linkerPot (fed2 v (Some (2 / 10 ^ 6))) = [(arrA, False), (arrB, True), (arrC, True)] \<and>
         pot_disabled (linkerPot (fed2 v (Some (2 / 10 ^ 6)))) = {''SA''} \<and>
         map (\<lambda>e. map fst (results (result e))) (queue (fed2 v (Some (2 / 10 ^ 6))))
           = [[''A''], [''B'']]"
  using assms by (simp add: ex_defs run_defs pot_disabled_def)

text \<open>The same run with the validator that rejects every candidate.\<close>

theorem failed_validation_leaves_mask_witness:
  "\<not> fst (reject_all [(arrA, False), (arrB, True), (arrC, True)]
             (POT_of [arrival resB, arrival resA1]) (2 / 10 ^ 6)) \<and>
   linkerPot (fed2 reject_all (Some (2 / 10 ^ 6))) = [(arrA, False), (arrB, True), (arrC, True)] \<and>
   pot_disabled (linkerPot (fed2 reject_all (Some (2 / 10 ^ 6)))) = {''SA''}"
proof -
  have h: "\<not> fst (reject_all [(arrA, False), (arrB, True), (arrC, True)]
             (POT_of [arrival resB, arrival resA1]) (2 / 10 ^ 6))"
    by (simp add: reject_all_def)
  from failed_validation_leaves_mask[of reject_all, OF h] h show ?thesis by blast
qed

subsection \<open>The invariant of an event\<close>

text \<open>
  When the processor of the merged result is not yet stored in the event, \<^verbatim>\<open>mergeResult\<close>
  keeps the identifiers distinct, sets the fit to the mean of the stored coefficients, and
  keeps the reference processor a stored one with the smallest pick time.
\<close>

lemma results_mergeResult_fresh:
  "map_of (results (result ev)) procId = None \<Longrightarrow>
   results (result (mergeResult procId res p ev)) = results (result ev) @ [(procId, res)]"
  by (simp add: mergeResult_def emplace_def Let_def split: option.splits)

lemma fit_mergeResult:
  "fit (result (mergeResult procId res p ev)) =
     cma (map (\<lambda>pr. coefficient (matchResult (snd pr)))
            (results (result (mergeResult procId res p ev))))"
  by (simp add: mergeResult_def Let_def split: option.splits)

lemma mergeResult_fresh_invariant:
  assumes d: "distinct (map fst (results (result ev)))"
    and fresh: "map_of (results (result ev)) procId = None"
    and ref: "case refPickTime ev of
                None \<Rightarrow> results (result ev) = []
              | Some t \<Rightarrow>
                  (\<exists>r. map_of (results (result ev)) (refProcId (result ev)) = Some r \<and>
                       time (pick (arrival r)) = t) \<and>
                  list_all (\<lambda>pr. t \<le> time (pick (arrival (snd pr)))) (results (result ev))"
  shows "distinct (map fst (results (result (mergeResult procId res p ev)))) \<and>
         fit (result (mergeResult procId res p ev)) =
           sum_list (map (\<lambda>pr. coefficient (matchResult (snd pr)))
                       (results (result (mergeResult procId res p ev)))) /
           real (length (results (result (mergeResult procId res p ev)))) \<and>
         (\<exists>t r. refPickTime (mergeResult procId res p ev) = Some t \<and>
            map_of (results (result (mergeResult procId res p ev)))
              (refProcId (result (mergeResult procId res p ev))) = Some r \<and>
            time (pick (arrival r)) = t \<and>
            list_all (\<lambda>pr. t \<le> time (pick (arrival (snd pr))))
              (results (result (mergeResult procId res p ev))))"
proof -
  let ?ev = "mergeResult procId res p ev"
  have rs: "results (result ?ev) = results (result ev) @ [(procId, res)]"
    by (rule results_mergeResult_fresh[OF fresh])
  have nin: "procId \<notin> fst ` set (results (result ev))"
    using fresh by (simp add: map_of_eq_None_iff)
  have 1: "distinct (map fst (results (result ?ev)))"
    using d nin by (simp add: rs)
  have 2: "fit (result ?ev) =
           sum_list (map (\<lambda>pr. coefficient (matchResult (snd pr))) (results (result ?ev))) /
           real (length (results (result ?ev)))"
    by (simp add: fit_mergeResult cma_def)
  have 3: "\<exists>t r. refPickTime ?ev = Some t \<and>
            map_of (results (result ?ev)) (refProcId (result ?ev)) = Some r \<and>
            time (pick (arrival r)) = t \<and>
            list_all (\<lambda>pr. t \<le> time (pick (arrival (snd pr)))) (results (result ?ev))"
  proof (cases "refPickTime ev")
    case None
    with ref have "results (result ev) = []" by simp
    with None show ?thesis
      by (simp add: mergeResult_def emplace_def Let_def)
  next
    case (Some t)
    with ref obtain r where r: "map_of (results (result ev)) (refProcId (result ev)) = Some r"
      "time (pick (arrival r)) = t"
      and le: "list_all (\<lambda>pr. t \<le> time (pick (arrival (snd pr)))) (results (result ev))"
      by auto
    show ?thesis
    proof (cases "time (pick (arrival res)) < t")
      case True
      have a: "refPickTime ?ev = Some (time (pick (arrival res)))" "refProcId (result ?ev) = procId"
        using Some True by (simp_all add: mergeResult_def Let_def)
      have b: "map_of (results (result ?ev)) procId = Some res"
        using fresh by (simp add: rs map_add_def map_of_append)
      have c: "list_all (\<lambda>pr. time (pick (arrival res)) \<le> time (pick (arrival (snd pr))))
                 (results (result ?ev))"
        using le True by (auto simp: rs list_all_iff)
      from a b c show ?thesis by simp
    next
      case False
      have a: "refPickTime ?ev = Some t" "refProcId (result ?ev) = refProcId (result ev)"
        using Some False by (simp_all add: mergeResult_def Let_def)
      have b: "map_of (results (result ?ev)) (refProcId (result ev)) = Some r"
        using r(1) by (simp add: rs map_add_def map_of_append)
      have c: "list_all (\<lambda>pr. t \<le> time (pick (arrival (snd pr)))) (results (result ?ev))"
        using le False by (simp add: rs)
      from a b c r(2) show ?thesis by simp
    qed
  qed
  from 1 2 3 show ?thesis by blast
qed

text \<open>
  Claim C4 states that after every \<^verbatim>\<open>mergeResult\<close> the reference processor is the
  stored one with the smallest pick time. The code at the input below: the linker without
  offset threshold is fed \<open>matchA1\<close>, \<open>matchB\<close> and \<open>matchA2\<close>. After the second call the
  reference processor of the first event is \<open>B\<close>, picked at 5. After the third call it is
  \<open>A\<close>, while the event stores the pick 10 for \<open>A\<close> and the pick 5 for \<open>B\<close>.
\<close>

theorem refProcId_not_earliest:
  "refProcId (result (hd (queue (fed2 v None)))) = ''B'' \<and>
   refProcId (result (hd (queue (fed3 v None)))) = ''A'' \<and>
   map (\<lambda>pr. (fst pr, time (pick (arrival (snd pr))))) (results (result (hd (queue (fed3 v None)))))
     = [(''A'', 10), (''B'', 5)]"
  by (simp add: ex_defs run_defs)

end
